theory Spec2Isabelle
  imports Main
begin

section \<open>JavaScript strings and values\<close>

text \<open>
  A JavaScript string is modelled as a list of 8-bit code units (\<open>string\<close>), so
  \<open>length\<close> is the \<open>.length\<close> of a Latin-1 string. \<open>String.prototype.trim\<close> removes
  white space and line terminators from both ends; in the 8-bit range these are TAB, LF,
  VT, FF, CR, SPACE and NBSP.
\<close>

definition is_white_space :: "char \<Rightarrow> bool" where
  "is_white_space c =
     (c \<in> set [CHR 0x09, CHR 0x0A, CHR 0x0B, CHR 0x0C, CHR 0x0D, CHR 0x20, CHR 0xA0])"

definition trim :: "string \<Rightarrow> string" where
  "trim s = rev (dropWhile is_white_space (rev (dropWhile is_white_space s)))"

fun starts_with :: "string \<Rightarrow> string \<Rightarrow> bool" where
  "starts_with s [] = True"
| "starts_with [] (c # sub) = False"
| "starts_with (d # s) (c # sub) = (d = c \<and> starts_with s sub)"

text \<open>\<open>String.prototype.includes\<close>: the substring occurs at some position.\<close>

fun includes_str :: "string \<Rightarrow> string \<Rightarrow> bool" where
  "includes_str [] sub = starts_with [] sub"
| "includes_str (d # s) sub = (starts_with (d # s) sub \<or> includes_str s sub)"

definition digit :: "nat \<Rightarrow> char" where
  "digit d = ''0123456789'' ! d"

text \<open>The decimal rendering of a number inside a template literal.\<close>

fun string_of_nat :: "nat \<Rightarrow> string" where
  "string_of_nat n =
     (if n < 10 then [digit n] else string_of_nat (n div 10) @ [digit (n mod 10)])"

definition string_of_int :: "int \<Rightarrow> string" where
  "string_of_int i =
     (if i < 0 then CHR ''-'' # string_of_nat (nat (- i)) else string_of_nat (nat i))"

text \<open>
  \<open>Math.ceil(x / d)\<close> on integers. The operands are millisecond time stamps, far below
  \<open>2^53\<close>, where the floating-point quotient rounds up to the same integer.
\<close>

definition math_ceil_div :: "int \<Rightarrow> int \<Rightarrow> int" where
  "math_ceil_div x d = - ((- x) div d)"

text \<open>\<open>Array.prototype.join\<close>.\<close>

fun join :: "string \<Rightarrow> string list \<Rightarrow> string" where
  "join sep [] = []"
| "join sep [x] = x"
| "join sep (x # y # ys) = x @ sep @ join sep (y # ys)"

text \<open>
  An optional string field is \<open>None\<close> when it is \<open>undefined\<close> or \<open>null\<close>. It is truthy
  when it holds a non-empty string; \<open>a || b\<close> is \<open>a\<close> when \<open>a\<close> is truthy and \<open>b\<close> otherwise.
\<close>

definition truthy :: "string option \<Rightarrow> bool" where
  "truthy v = (case v of None \<Rightarrow> False | Some s \<Rightarrow> s \<noteq> [])"

definition js_or :: "string option \<Rightarrow> string option \<Rightarrow> string option" where
  "js_or a b = (if truthy a then a else b)"

text \<open>\<open>a || s\<close> with a string literal or a string-typed field on the right.\<close>

definition js_or_str :: "string option \<Rightarrow> string \<Rightarrow> string" where
  "js_or_str a s = (case a of None \<Rightarrow> s | Some x \<Rightarrow> if x \<noteq> [] then x else s)"

text \<open>A thrown value: an \<open>Error\<close> (or \<open>DOMException\<close>) with its name and message.\<close>

datatype js_error = JsError (err_name: string) (message: string)

definition new_Error :: "string \<Rightarrow> js_error" where
  "new_Error msg = JsError ''Error'' msg"


section \<open>The types of the search API\<close>

text \<open>
  The declarations of \<open>Card\<close>, \<open>Printing\<close>, \<open>Set\<close>, \<open>AutocompleteResult\<close> and
  \<open>AutocompleteResponse\<close> live in \<open>@/config/searchApi\<close>; the records below hold the
  fields that the hook and the search bar read.
\<close>

record card =
  printing_id :: "string option"
  oracle_id :: "string option"
  name :: string
  set_name :: "string option"
  collector_number :: "string option"
  image_uri_small :: "string option"
  front_image_url :: "string option"
  image_uri_normal :: "string option"

record printing =
  printing_id :: string
  oracle_id :: string
  name :: string
  set_name :: string
  collector_number :: string
  image_uri_small :: "string option"

record set_info =
  code :: string
  name :: string
  set_type :: "string option"
  release_date :: "string option"
  icon_svg_uri :: "string option"

text \<open>
  \<open>AutocompleteResult\<close> is discriminated by its \<open>type\<close> tag: \<open>SetItem\<close> is a result with
  \<open>type === 'set'\<close>, \<open>CardItem\<close> any other result.
\<close>

datatype autocomplete_result = CardItem printing | SetItem set_info

text \<open>
  The \<open>data\<close> property of a parsed body, as far as the code inspects it:
  a falsy value (absent, \<open>null\<close>, \<open>0\<close>, the empty string), a truthy primitive (whose own
  \<open>data\<close> property is \<open>undefined\<close>), an array of results, or an object together with its
  own \<open>data\<close> property when that is an array of cards.
\<close>

datatype api_data =
    DataFalsy
  | DataPrimitive
  | DataArray "autocomplete_result list"
  | DataObject "card list option"

text \<open>
  \<open>AutocompleteResponse\<close>. \<open>success\<close> and \<open>cached\<close> hold the truthiness of the
  properties (an absent property is falsy).
\<close>

record autocomplete_response =
  success :: bool
  cached :: bool
  data :: api_data
  error :: "string option"

text \<open>
  What \<open>response.json()\<close> resolves to: \<open>null\<close>, or a value whose properties can be read
  (for a JSON number, string or boolean every property read is \<open>undefined\<close>, so it is
  the value with falsy \<open>success\<close>, \<open>cached\<close>, \<open>data\<close> and no \<open>error\<close>).
\<close>

datatype json_body = JsonNull | JsonValue autocomplete_response

text \<open>A \<open>fetch\<close> \<open>Response\<close>: status, headers, and the outcome of \<open>response.json()\<close>.\<close>

record response =
  status :: nat
  headers :: "(string \<times> string) list"
  json :: "js_error + json_body"

definition ok :: "response \<Rightarrow> bool" where
  "ok r = (200 \<le> status r \<and> status r \<le> 299)"

text \<open>The settlement of the \<open>fetch\<close> promise.\<close>

datatype fetch_outcome = Rejected js_error | Resolved response

text \<open>
  The URL handed to \<open>fetch\<close>. \<open>searchApiConfig.endpoints\<close> is not part of the hook: a
  request is identified by the endpoint and the arguments it is built from.
\<close>

datatype request =
    AutocompleteRequest string
  | SearchByOracleIdsPaginatedRequest string nat string


section \<open>Rate limiting and the two client operations\<close>

record rate_limit =
  blocked :: bool
  until :: int

text \<open>
  \<open>fetchEnglishAutocomplete\<close>, lines 57-70: everything up to the \<open>fetch\<close> call, at time
  \<open>now = Date.now()\<close>. \<open>Inl\<close> is the thrown error; \<open>Inr\<close> the request that is issued.
\<close>

definition fetchEnglishAutocomplete_request ::
  "rate_limit \<Rightarrow> int \<Rightarrow> string \<Rightarrow> js_error + request" where
  "fetchEnglishAutocomplete_request rateLimitRef now searchTerm =
     (if blocked rateLimitRef \<and> now < until rateLimitRef then
        let waitTime = math_ceil_div (until rateLimitRef - now) 1000
        in Inl (new_Error (''Troppe richieste. Attendi '' @ string_of_int waitTime @ '' secondi.''))
      else Inr (AutocompleteRequest (trim searchTerm)))"

text \<open>
  \<open>fetchEnglishAutocomplete\<close>, lines 72-88: the continuation after \<open>await fetch\<close>, at time
  \<open>now\<close>. Returns what the function throws or returns, and the new rate-limit state.
\<close>

definition fetchEnglishAutocomplete_response ::
  "rate_limit \<Rightarrow> int \<Rightarrow> fetch_outcome \<Rightarrow> (js_error + json_body) \<times> rate_limit" where
  "fetchEnglishAutocomplete_response rateLimitRef now outcome =
     (case outcome of
        Rejected err \<Rightarrow> (Inl err, rateLimitRef)
      | Resolved response \<Rightarrow>
          if \<not> ok response then
            if status response = 429 then
              let retryAfter = 30
              in (Inl (new_Error (''Troppe richieste. Attendi '' @ string_of_int retryAfter
                                  @ '' secondi.'')),
                  \<lparr>blocked = True, until = now + retryAfter * 1000\<rparr>)
            else (Inl (new_Error (''HTTP error! status: '' @ string_of_nat (status response))),
                  rateLimitRef)
          else (json response, \<lparr>blocked = False, until = 0\<rparr>))"

text \<open>
  The whole of \<open>fetchEnglishAutocomplete\<close>: the check at time \<open>now\<close>, then, if a request
  goes out, the settlement \<open>outcome\<close> handled at time \<open>now'\<close>. The third component is the
  network request made, if any.
\<close>

definition fetchEnglishAutocomplete ::
  "rate_limit \<Rightarrow> int \<Rightarrow> int \<Rightarrow> fetch_outcome \<Rightarrow> string
     \<Rightarrow> (js_error + json_body) \<times> rate_limit \<times> request option" where
  "fetchEnglishAutocomplete rateLimitRef now now' outcome searchTerm =
     (case fetchEnglishAutocomplete_request rateLimitRef now searchTerm of
        Inl err \<Rightarrow> (Inl err, rateLimitRef, None)
      | Inr req \<Rightarrow>
          (case fetchEnglishAutocomplete_response rateLimitRef now' outcome of
             (r, rl) \<Rightarrow> (r, rl, Some req)))"

text \<open>\<open>fetchByOracleIds\<close>, lines 93-109.\<close>

definition fetchByOracleIds_request ::
  "rate_limit \<Rightarrow> int \<Rightarrow> string list \<Rightarrow> js_error + request" where
  "fetchByOracleIds_request rateLimitRef now oracleIds =
     (if blocked rateLimitRef \<and> now < until rateLimitRef then
        let waitTime = math_ceil_div (until rateLimitRef - now) 1000
        in Inl (new_Error (''Troppe richieste. Attendi '' @ string_of_int waitTime @ '' secondi.''))
      else
        let idsParam = join '','' oracleIds
        in Inr (SearchByOracleIdsPaginatedRequest idsParam 1 ''relevance''))"

text \<open>Lines 136-146: the filter on the cards and the conversion of a card that passed it.\<close>

definition card_valid :: "card \<Rightarrow> bool" where
  "card_valid c = (truthy (card.oracle_id c) \<and> truthy (card.printing_id c))"

text \<open>
  \<open>card.printing_id!\<close> and \<open>card.oracle_id\<close> are read on cards that passed the filter,
  where both hold a non-empty string.
\<close>

definition card_to_printing :: "card \<Rightarrow> printing" where
  "card_to_printing c =
     \<lparr>printing_id = js_or_str (card.printing_id c) '''',
      oracle_id = js_or_str (card.oracle_id c) '''',
      name = card.name c,
      set_name = js_or_str (card.set_name c) '''',
      collector_number = js_or_str (card.collector_number c) '''',
      image_uri_small =
        js_or (card.image_uri_small c)
          (js_or (card.front_image_url c) (js_or (card.image_uri_normal c) None))\<rparr>"

text \<open>
  The tests that lines 132 and 156 make on \<open>responseData.data\<close>: its truthiness,
  \<open>Array.isArray(responseData.data.data)\<close> (with the array) and
  \<open>Array.isArray(responseData.data)\<close> (with the array).
\<close>

definition data_truthy :: "api_data \<Rightarrow> bool" where
  "data_truthy d = (case d of DataFalsy \<Rightarrow> False | _ \<Rightarrow> True)"

definition data_data_array :: "api_data \<Rightarrow> card list option" where
  "data_data_array d = (case d of DataObject cs \<Rightarrow> cs | _ \<Rightarrow> None)"

definition data_array :: "api_data \<Rightarrow> autocomplete_result list option" where
  "data_array d = (case d of DataArray items \<Rightarrow> Some items | _ \<Rightarrow> None)"

text \<open>
  Lines 127-166: the normalisation of the parsed body. Reading \<open>responseData.success\<close>
  on \<open>null\<close> throws a \<open>TypeError\<close>.
\<close>

definition normalize_response :: "json_body \<Rightarrow> js_error + json_body" where
  "normalize_response responseData =
     (case responseData of
        JsonNull \<Rightarrow> Inl (JsError ''TypeError'' ''Cannot read properties of null'')
      | JsonValue r \<Rightarrow>
          (case (if success r \<and> data_truthy (data r) then data_data_array (data r) else None) of
             Some cards \<Rightarrow>
               let printings = map card_to_printing (filter card_valid cards)
               in Inr (JsonValue \<lparr>success = True, cached = (cached r \<or> False),
                                  data = DataArray (map CardItem printings), error = None\<rparr>)
           | None \<Rightarrow>
               (case (if success r then data_array (data r) else None) of
                  Some items \<Rightarrow> Inr responseData
                | None \<Rightarrow>
                    Inr (JsonValue \<lparr>success = False, cached = False, data = DataArray [],
                                    error = Some ''Formato risposta API non riconosciuto''\<rparr>))))"

text \<open>\<open>fetchByOracleIds\<close>, lines 111-166: the continuation after \<open>await fetch\<close>.\<close>

definition fetchByOracleIds_response ::
  "rate_limit \<Rightarrow> int \<Rightarrow> fetch_outcome \<Rightarrow> (js_error + json_body) \<times> rate_limit" where
  "fetchByOracleIds_response rateLimitRef now outcome =
     (case outcome of
        Rejected err \<Rightarrow> (Inl err, rateLimitRef)
      | Resolved response \<Rightarrow>
          if \<not> ok response then
            if status response = 429 then
              let retryAfter = 30
              in (Inl (new_Error (''Troppe richieste. Attendi '' @ string_of_int retryAfter
                                  @ '' secondi.'')),
                  \<lparr>blocked = True, until = now + retryAfter * 1000\<rparr>)
            else (Inl (new_Error (''HTTP error! status: '' @ string_of_nat (status response))),
                  rateLimitRef)
          else
            (case json response of
               Inl err \<Rightarrow> (Inl err, \<lparr>blocked = False, until = 0\<rparr>)
             | Inr responseData \<Rightarrow>
                 (normalize_response responseData, \<lparr>blocked = False, until = 0\<rparr>)))"

definition fetchByOracleIds ::
  "rate_limit \<Rightarrow> int \<Rightarrow> int \<Rightarrow> fetch_outcome \<Rightarrow> string list
     \<Rightarrow> (js_error + json_body) \<times> rate_limit \<times> request option" where
  "fetchByOracleIds rateLimitRef now now' outcome oracleIds =
     (case fetchByOracleIds_request rateLimitRef now oracleIds of
        Inl err \<Rightarrow> (Inl err, rateLimitRef, None)
      | Inr req \<Rightarrow>
          (case fetchByOracleIds_response rateLimitRef now' outcome of
             (r, rl) \<Rightarrow> (r, rl, Some req)))"


section \<open>The hook\<close>

text \<open>\<open>PrintingWithTranslation\<close> and \<open>AutocompleteResultWithTranslation\<close>.\<close>

record printing_with_translation = printing +
  originalName :: "string option"
  preferredName :: "string option"

text \<open>
  \<open>CardResultInheritedName p\<close> is the object that lines 308-314 build for the printing \<open>p\<close>
  when the lookup at line 307 finds a property inherited from \<open>Object.prototype\<close>: its
  \<open>name\<close> and \<open>preferredName\<close> hold that value (a function, or the prototype object), which
  is not a string; \<open>originalName\<close> is the name of \<open>p\<close> and the other fields are those of \<open>p\<close>.
\<close>

datatype autocomplete_result_with_translation =
    CardResult printing_with_translation
  | SetResult set_info
  | CardResultInheritedName printing

text \<open>An entry of the translation dictionary, the \<open>item\<close> of a Fuse.js search result.\<close>

record fuse_item =
  item_id :: string
  item_name :: string
  item_preferred :: string

text \<open>
  What \<open>performSearch\<close> closes over: the options of the hook and the values of
  \<open>useLanguage()\<close>. \<open>fuseDictionary\<close> is the \<open>search\<close> method of the index (term and
  limit to the items found, best first); \<open>idToPreferredName\<close> is the object as its list
  of entries.
\<close>

record hook_props =
  minLength :: int
  selectedLang :: string
  fuseDictionary :: "(string \<Rightarrow> nat \<Rightarrow> fuse_item list) option"
  idToPreferredName :: "(string \<times> string) list option"
  isLangLoading :: bool

text \<open>
  The state of the hook: the five observable values, and the refs. Every
  \<open>AbortController\<close> is identified by a number (\<open>controllers\<close> counts those created so
  far); \<open>aborted\<close> holds the controllers whose signal is aborted.
\<close>

record hook_state =
  results :: "autocomplete_result_with_translation list"
  loading :: bool
  error :: "string option"
  cached :: bool
  translatedName :: "string option"
  abortControllerRef :: "nat option"
  aborted :: "nat set"
  controllers :: nat
  rateLimitRef :: rate_limit

text \<open>
  A resolution suspended at one of its \<open>await\<close>s: the local \<open>controller\<close>, the request in
  flight, and the place it resumes at: line 197 (\<open>EnglishResults\<close>), line 232 or 262
  (\<open>FallbackResults\<close>), or line 298 with the local \<open>fuseResults\<close> (\<open>TranslatedResults\<close>).
\<close>

datatype continuation =
    EnglishResults
  | FallbackResults
  | TranslatedResults "fuse_item list"

record pending =
  controller :: nat
  awaiting :: continuation
  request :: request

text \<open>Lines 202-210: the results of the English search.\<close>

definition processedResults_en ::
  "autocomplete_result list \<Rightarrow> autocomplete_result_with_translation list" where
  "processedResults_en items =
     map (\<lambda>result. case result of
            SetItem s \<Rightarrow> SetResult s
          | CardItem p \<Rightarrow>
              CardResult (printing.extend p \<lparr>originalName = None, preferredName = None\<rparr>))
         items"

text \<open>Lines 237-243 and 267-273: the results of the fallback search.\<close>

definition processedResults_fallback ::
  "autocomplete_result list \<Rightarrow> autocomplete_result_with_translation list" where
  "processedResults_fallback items =
     map (\<lambda>result. case result of
            SetItem s \<Rightarrow> SetResult s
          | CardItem p \<Rightarrow>
              CardResult (printing.extend p
                \<lparr>originalName = Some (printing.name p), preferredName = None\<rparr>))
         items"

text \<open>Line 289: \<open>[...new Set(ids)]\<close> keeps the first occurrence of every id, in order.\<close>

definition unique_ids :: "string list \<Rightarrow> string list" where
  "unique_ids ids = foldl (\<lambda>seen i. if i \<in> set seen then seen else seen @ [i]) [] ids"

text \<open>
  \<open>idToPreferredMap\<close> is a plain object \<open>{}\<close>: reading a key finds an own property or,
  failing that, a property of \<open>Object.prototype\<close>. These are the names of the latter.
\<close>

definition object_prototype_keys :: "string list" where
  "object_prototype_keys =
     [''constructor'', ''hasOwnProperty'', ''isPrototypeOf'', ''propertyIsEnumerable'',
      ''toLocaleString'', ''toString'', ''valueOf'', ''__proto__'',
      ''__defineGetter__'', ''__defineSetter__'', ''__lookupGetter__'', ''__lookupSetter__'']"

text \<open>
  Lines 292-295: the own properties of the object. A later entry overwrites an earlier
  one with the same id; assigning a string to \<open>__proto__\<close> runs the setter of
  \<open>Object.prototype\<close>, which ignores it and creates no property.
\<close>

definition idToPreferredMap :: "fuse_item list \<Rightarrow> (string \<rightharpoonup> string)" where
  "idToPreferredMap fuseResults =
     foldl (\<lambda>m result. if item_id result = ''__proto__'' then m
                        else m(item_id result \<mapsto> item_preferred result))
       Map.empty fuseResults"

text \<open>What \<open>object[key]\<close> evaluates to, for an object with the given own properties.\<close>

datatype property_value = UndefinedValue | StringValue string | InheritedValue

definition get_property :: "(string \<rightharpoonup> string) \<Rightarrow> string \<Rightarrow> property_value" where
  "get_property object key =
     (case object key of
        Some v \<Rightarrow> StringValue v
      | None \<Rightarrow> if key \<in> set object_prototype_keys then InheritedValue else UndefinedValue)"

text \<open>Line 305: the results that are not sets.\<close>

fun printings_of :: "autocomplete_result list \<Rightarrow> printing list" where
  "printings_of [] = []"
| "printings_of (CardItem p # items) = p # printings_of items"
| "printings_of (SetItem s # items) = printings_of items"

text \<open>Lines 304-315.\<close>

definition mappedResults ::
  "fuse_item list \<Rightarrow> autocomplete_result list \<Rightarrow> autocomplete_result_with_translation list"
  where
  "mappedResults fuseResults items =
     map (\<lambda>p.
            case get_property (idToPreferredMap fuseResults) (printing.oracle_id p) of
              InheritedValue \<Rightarrow> CardResultInheritedName p
            | found \<Rightarrow>
                let preferredName = (case found of StringValue v \<Rightarrow> Some v | _ \<Rightarrow> None)
                in CardResult
                     \<lparr>printing_id = printing.printing_id p,
                      oracle_id = printing.oracle_id p,
                      name = js_or_str preferredName (printing.name p),
                      set_name = printing.set_name p,
                      collector_number = printing.collector_number p,
                      image_uri_small = printing.image_uri_small p,
                      originalName = Some (printing.name p),
                      preferredName = js_or preferredName None\<rparr>)
         (printings_of items)"

text \<open>Line 321: \<open>fuseResults[0]?.item?.preferred || null\<close>.\<close>

definition first_preferred :: "fuse_item list \<Rightarrow> string option" where
  "first_preferred fuseResults =
     (case fuseResults of
        [] \<Rightarrow> None
      | result # _ \<Rightarrow> js_or (Some (item_preferred result)) None)"

text \<open>
  Lines 199-220, 234-253, 264-283 and 300-327: the outcome of the awaited call is
  committed unless the signal of the local \<open>controller\<close> (here \<open>c\<close>) is aborted. The four blocks differ
  in the list they store (\<open>process\<close>) and in the translated name (\<open>label\<close>).
  Reading \<open>data.success\<close> on \<open>null\<close> throws.
\<close>

definition commit ::
  "(autocomplete_result list \<Rightarrow> autocomplete_result_with_translation list)
     \<Rightarrow> string option \<Rightarrow> nat \<Rightarrow> json_body \<Rightarrow> hook_state \<Rightarrow> js_error + hook_state" where
  "commit process label c body s =
     (if c \<notin> aborted s then
        (case body of
           JsonNull \<Rightarrow> Inl (JsError ''TypeError'' ''Cannot read properties of null'')
         | JsonValue r \<Rightarrow>
             (case (if success r then data_array (data r) else None) of
                Some items \<Rightarrow>
                  Inr (s\<lparr>results := process items,
                         cached := (autocomplete_response.cached r \<or> False),
                         error := None,
                         translatedName := label\<rparr>)
              | None \<Rightarrow>
                  Inr (s\<lparr>results := [],
                         cached := False,
                         error := Some (js_or_str (autocomplete_response.error r)
                                          ''Errore durante la ricerca'')\<rparr>)))
      else Inr s)"

text \<open>Lines 328-348: the \<open>catch\<close> block.\<close>

definition catch_block :: "js_error \<Rightarrow> hook_state \<Rightarrow> hook_state" where
  "catch_block err s =
     (if err_name err \<noteq> ''AbortError'' then
        let errorMessage =
          (if includes_str (message err) ''Troppe richieste'' then message err
           else if includes_str (message err) ''Failed to fetch''
                   \<or> includes_str (message err) ''NetworkError'' then ''Errore di connessione''
           else if includes_str (message err) ''HTTP error'' then
             (if includes_str (message err) ''429''
              then ''Troppe richieste. Attendi qualche secondo prima di riprovare.''
              else ''Errore del server: '' @ message err)
           else ''Errore durante la ricerca'')
        in s\<lparr>error := Some errorMessage, results := [], cached := False\<rparr>
      else s)"

text \<open>
  Lines 349-353: the \<open>finally\<close> block reads the controller that the ref holds when the
  block runs.
\<close>

definition finally_block :: "hook_state \<Rightarrow> hook_state" where
  "finally_block s =
     (if \<not> (case abortControllerRef s of None \<Rightarrow> False | Some c \<Rightarrow> c \<in> aborted s)
      then s\<lparr>loading := False\<rparr> else s)"

text \<open>The end of the \<open>try\<close> statement: a thrown error goes through \<open>catch\<close>, then \<open>finally\<close>.\<close>

definition try_end :: "hook_state \<Rightarrow> js_error + hook_state \<Rightarrow> hook_state" where
  "try_end s r = finally_block (case r of Inl err \<Rightarrow> catch_block err s | Inr s' \<Rightarrow> s')"

text \<open>
  \<open>performSearch\<close> from its call at time \<open>now\<close> to its first \<open>await\<close> of a network call, or
  to its end when it makes none. The second component is the suspended resolution.
\<close>

definition call_fetchEnglishAutocomplete ::
  "continuation \<Rightarrow> nat \<Rightarrow> int \<Rightarrow> string \<Rightarrow> hook_state \<Rightarrow> hook_state \<times> pending option" where
  "call_fetchEnglishAutocomplete k c now searchTerm s =
     (case fetchEnglishAutocomplete_request (rateLimitRef s) now searchTerm of
        Inl err \<Rightarrow> (try_end s (Inl err), None)
      | Inr req \<Rightarrow> (s, Some \<lparr>controller = c, awaiting = k, request = req\<rparr>))"

definition performSearch_start ::
  "hook_props \<Rightarrow> hook_state \<Rightarrow> int \<Rightarrow> string \<Rightarrow> hook_state \<times> pending option" where
  "performSearch_start props s0 now searchTerm =
     (let s1 = s0\<lparr>error := None, translatedName := None\<rparr> in
      if int (length (trim searchTerm)) < minLength props then
        (s1\<lparr>results := [], loading := False, cached := False\<rparr>, None)
      else
        let s2 = (case abortControllerRef s1 of
                    Some c \<Rightarrow> s1\<lparr>aborted := insert c (aborted s1)\<rparr>
                  | None \<Rightarrow> s1);
            c = controllers s2;
            s3 = s2\<lparr>controllers := c + 1, abortControllerRef := Some c\<rparr>;
            s4 = s3\<lparr>loading := True\<rparr>
        in
          if selectedLang props = ''en'' then
            call_fetchEnglishAutocomplete EnglishResults c now searchTerm s4
          else if isLangLoading props then (finally_block s4, None)
          else
            (case fuseDictionary props of
               None \<Rightarrow> call_fetchEnglishAutocomplete FallbackResults c now searchTerm s4
             | Some search \<Rightarrow>
                 (case idToPreferredName props of
                    None \<Rightarrow> call_fetchEnglishAutocomplete FallbackResults c now searchTerm s4
                  | Some entries \<Rightarrow>
                      if length (map fst entries) = 0 then
                        call_fetchEnglishAutocomplete FallbackResults c now searchTerm s4
                      else
                        let fuseResults = search (trim searchTerm) 10 in
                        if length fuseResults = 0 then
                          call_fetchEnglishAutocomplete FallbackResults c now searchTerm s4
                        else
                          let oracleIds = unique_ids (map item_id fuseResults) in
                          (case fetchByOracleIds_request (rateLimitRef s4) now oracleIds of
                             Inl err \<Rightarrow> (try_end s4 (Inl err), None)
                           | Inr req \<Rightarrow>
                               (s4, Some \<lparr>controller = c,
                                          awaiting = TranslatedResults fuseResults,
                                          request = req\<rparr>)))))"

text \<open>
  \<open>performSearch\<close> from the settlement of the awaited network call, handled at time
  \<open>now\<close> in the state \<open>s\<close> of that moment, to its end.
\<close>

definition performSearch_resume ::
  "hook_state \<Rightarrow> int \<Rightarrow> pending \<Rightarrow> fetch_outcome \<Rightarrow> hook_state" where
  "performSearch_resume s now p outcome =
     (case awaiting p of
        EnglishResults \<Rightarrow>
          (case fetchEnglishAutocomplete_response (rateLimitRef s) now outcome of
             (r, rl) \<Rightarrow>
               let s1 = s\<lparr>rateLimitRef := rl\<rparr> in
               try_end s1
                 (case r of
                    Inl err \<Rightarrow> Inl err
                  | Inr body \<Rightarrow> commit processedResults_en None (controller p) body s1))
      | FallbackResults \<Rightarrow>
          (case fetchEnglishAutocomplete_response (rateLimitRef s) now outcome of
             (r, rl) \<Rightarrow>
               let s1 = s\<lparr>rateLimitRef := rl\<rparr> in
               try_end s1
                 (case r of
                    Inl err \<Rightarrow> Inl err
                  | Inr body \<Rightarrow> commit processedResults_fallback None (controller p) body s1))
      | TranslatedResults fuseResults \<Rightarrow>
          (case fetchByOracleIds_response (rateLimitRef s) now outcome of
             (r, rl) \<Rightarrow>
               let s1 = s\<lparr>rateLimitRef := rl\<rparr> in
               try_end s1
                 (case r of
                    Inl err \<Rightarrow> Inl err
                  | Inr body \<Rightarrow>
                      commit (mappedResults fuseResults) (first_preferred fuseResults)
                        (controller p) body s1)))"

text \<open>
  A resolution that nothing interrupts: called at time \<open>now\<close>, its network call, if it
  makes one, settles with \<open>outcome\<close> at time \<open>now'\<close>. The second component is the network
  request made, if any.
\<close>

definition performSearch ::
  "hook_props \<Rightarrow> hook_state \<Rightarrow> int \<Rightarrow> int \<Rightarrow> fetch_outcome \<Rightarrow> string
     \<Rightarrow> hook_state \<times> request option" where
  "performSearch props s now now' outcome searchTerm =
     (case performSearch_start props s now searchTerm of
        (s1, None) \<Rightarrow> (s1, None)
      | (s1, Some p) \<Rightarrow> (performSearch_resume s1 now' p outcome, Some (request p)))"

text \<open>
  Lines 369-375: the cleanup of the debounce effect, run when the term changes, aborts
  the controller that the ref holds.
\<close>

definition effect_cleanup :: "hook_state \<Rightarrow> hook_state" where
  "effect_cleanup s =
     (case abortControllerRef s of
        Some c \<Rightarrow> s\<lparr>aborted := insert c (aborted s)\<rparr>
      | None \<Rightarrow> s)"

text \<open>The state of a freshly mounted hook (lines 45-53).\<close>

definition initial_state :: hook_state where
  "initial_state =
     \<lparr>results = [], loading = False, error = None, cached = False, translatedName = None,
      abortControllerRef = None, aborted = {}, controllers = 0,
      rateLimitRef = \<lparr>blocked = False, until = 0\<rparr>\<rparr>"

text \<open>
  The state that lines 172-192 leave for a term that passes the length check: the state
  in which the resolution makes its network call.
\<close>

definition begun :: "hook_state \<Rightarrow> hook_state" where
  "begun s =
     (case abortControllerRef s of
        Some c \<Rightarrow> s\<lparr>error := None, translatedName := None, aborted := insert c (aborted s)\<rparr>
      | None \<Rightarrow> s\<lparr>error := None, translatedName := None\<rparr>)
     \<lparr>controllers := controllers s + 1, abortControllerRef := Some (controllers s),
      loading := True\<rparr>"

text \<open>
  The controllers that the state mentions have been created. This holds of the initial
  state and is kept by every operation of the hook.
\<close>

definition state_ok :: "hook_state \<Rightarrow> bool" where
  "state_ok s =
     ((\<forall>c \<in> aborted s. c < controllers s)
      \<and> (case abortControllerRef s of None \<Rightarrow> True | Some c \<Rightarrow> c < controllers s))"



section \<open>Example inputs\<close>

definition underground_sea_card :: card where
  "underground_sea_card =
     \<lparr>card.printing_id = Some ''p1'', card.oracle_id = Some ''abc'',
      card.name = ''Underground Sea'', card.set_name = Some ''Alpha'',
      card.collector_number = None, card.image_uri_small = None,
      front_image_url = Some ''front.jpg'', image_uri_normal = Some ''normal.jpg''\<rparr>"

definition card_without_oracle_id :: card where
  "card_without_oracle_id =
     \<lparr>card.printing_id = Some ''p9'', card.oracle_id = None,
      card.name = ''Tundra'', card.set_name = None,
      card.collector_number = None, card.image_uri_small = Some ''small.jpg'',
      front_image_url = None, image_uri_normal = None\<rparr>"

definition underground_sea :: printing where
  "underground_sea =
     \<lparr>printing_id = ''p1'', oracle_id = ''abc'', name = ''Underground Sea'',
      set_name = ''Alpha'', collector_number = ''1'', image_uri_small = None\<rparr>"

definition island :: printing where
  "island =
     \<lparr>printing_id = ''p2'', oracle_id = ''def'', name = ''Island'',
      set_name = ''Alpha'', collector_number = ''2'', image_uri_small = None\<rparr>"

definition alpha :: set_info where
  "alpha =
     \<lparr>code = ''lea'', name = ''Alpha'', set_type = None, release_date = None,
      icon_svg_uri = None\<rparr>"

definition english_props :: hook_props where
  "english_props =
     \<lparr>minLength = 2, selectedLang = ''en'', fuseDictionary = None,
      idToPreferredName = None, isLangLoading = False\<rparr>"

text \<open>A dictionary with two entries; the entry of the Island has no translation.\<close>

definition dictionary :: "string \<Rightarrow> nat \<Rightarrow> fuse_item list" where
  "dictionary term limit =
     take limit
       (if term = ''sottomare'' then
          [\<lparr>item_id = ''abc'', item_name = ''Underground Sea'',
            item_preferred = ''mare sotterraneo''\<rparr>]
        else if term = ''isola'' then
          [\<lparr>item_id = ''def'', item_name = ''Island'', item_preferred = ''''\<rparr>]
        else [])"

definition italian_props :: hook_props where
  "italian_props =
     \<lparr>minLength = 2, selectedLang = ''it'', fuseDictionary = Some dictionary,
      idToPreferredName = Some [(''abc'', ''mare sotterraneo''), (''def'', '''')],
      isLangLoading = False\<rparr>"

definition ok_response :: "api_data \<Rightarrow> response" where
  "ok_response d =
     \<lparr>status = 200, headers = [],
      json = Inr (JsonValue \<lparr>success = True, cached = False, data = d, error = None\<rparr>)\<rparr>"

definition server_error_response :: response where
  "server_error_response =
     \<lparr>status = 500, headers = [],
      json = Inl (JsError ''SyntaxError'' ''Unexpected token'')\<rparr>"

definition throttled_response :: response where
  "throttled_response =
     \<lparr>status = 429, headers = [(''Retry-After'', ''120'')],
      json = Inl (JsError ''SyntaxError'' ''Unexpected token'')\<rparr>"

definition abort_error :: js_error where
  "abort_error = JsError ''AbortError'' ''The operation was aborted.''"

definition null_response :: response where
  "null_response = \<lparr>status = 200, headers = [], json = Inr JsonNull\<rparr>"


definition pending_B :: pending where
  "pending_B =
     \<lparr>controller = 1, awaiting = EnglishResults, request = AutocompleteRequest ''abc''\<rparr>"

definition state_A :: hook_state where
  "state_A = fst (performSearch_start english_props initial_state 0 ''ab'')"

definition state_B :: hook_state where
  "state_B = fst (performSearch_start english_props (effect_cleanup state_A) 400 ''abc'')"

definition state_B_settled :: hook_state where
  "state_B_settled =
     performSearch_resume state_B 500 pending_B
       (Resolved (ok_response (DataArray [CardItem underground_sea])))"


section \<open>Auxiliary facts\<close>

lemmas example_defs =
  underground_sea_card_def card_without_oracle_id_def underground_sea_def island_def alpha_def
  english_props_def dictionary_def italian_props_def ok_response_def
  server_error_response_def throttled_response_def null_response_def abort_error_def


lemmas run_defs =
  performSearch_def performSearch_start_def performSearch_resume_def initial_state_def
  call_fetchEnglishAutocomplete_def fetchEnglishAutocomplete_def fetchByOracleIds_def
  fetchEnglishAutocomplete_request_def fetchEnglishAutocomplete_response_def
  fetchByOracleIds_request_def fetchByOracleIds_response_def normalize_response_def
  card_valid_def card_to_printing_def
  try_end_def commit_def catch_block_def finally_block_def ok_def
  data_array_def data_truthy_def data_data_array_def
  processedResults_en_def processedResults_fallback_def mappedResults_def first_preferred_def
  idToPreferredMap_def get_property_def object_prototype_keys_def
  unique_ids_def js_or_def js_or_str_def truthy_def
  trim_def is_white_space_def effect_cleanup_def new_Error_def digit_def
  math_ceil_div_def string_of_int_def

lemma not_ok_429: "status r = 429 \<Longrightarrow> \<not> ok r"
  by (simp add: ok_def)

subsection \<open>The dictionary candidates\<close>

lemma foldl_update_map_of:
  "foldl (\<lambda>m result. if item_id result = ''__proto__'' then m
                     else m(item_id result \<mapsto> item_preferred result)) m0 rs =
     m0 ++ map_of (rev (map (\<lambda>r. (item_id r, item_preferred r))
                          (filter (\<lambda>r. item_id r \<noteq> ''__proto__'') rs)))"
proof (induction rs arbitrary: m0)
  case Nil
  show ?case by simp
next
  case (Cons a rs)
  have "m0(item_id a \<mapsto> item_preferred a) ++ M = m0 ++ ([item_id a \<mapsto> item_preferred a] ++ M)"
    for M
    by (rule ext) (simp add: map_add_def split: option.splits)
  with Cons show ?case by (simp del: fun_upd_apply)
qed

text \<open>
  The object holds, for every id other than \<open>__proto__\<close>, the preferred name of the last
  candidate with that id.
\<close>

lemma idToPreferredMap_last_wins:
  "idToPreferredMap rs =
     map_of (rev (map (\<lambda>r. (item_id r, item_preferred r))
                    (filter (\<lambda>r. item_id r \<noteq> ''__proto__'') rs)))"
  by (simp add: idToPreferredMap_def foldl_update_map_of)

lemma foldl_unique:
  "distinct seen \<Longrightarrow>
   distinct (foldl (\<lambda>seen i. if i \<in> set seen then seen else seen @ [i]) seen ids) \<and>
   set (foldl (\<lambda>seen i. if i \<in> set seen then seen else seen @ [i]) seen ids)
     = set seen \<union> set ids"
  by (induction ids arbitrary: seen) auto

lemma unique_ids_distinct: "distinct (unique_ids ids) \<and> set (unique_ids ids) = set ids"
  using foldl_unique[of "[]" ids] by (simp add: unique_ids_def)

subsection \<open>Results and error through the blocks of \<open>performSearch\<close>\<close>

lemma finally_block_fields [simp]:
  "results (finally_block s) = results s"
  "hook_state.error (finally_block s) = hook_state.error s"
  "translatedName (finally_block s) = translatedName s"
  "hook_state.cached (finally_block s) = hook_state.cached s"
  by (simp_all add: finally_block_def)

lemma catch_block_inv:
  "results s = [] \<or> hook_state.error s = None \<Longrightarrow>
   results (catch_block e s) = [] \<or> hook_state.error (catch_block e s) = None"
  by (simp add: catch_block_def Let_def)

lemma commit_inv:
  "results s = [] \<or> hook_state.error s = None \<Longrightarrow> commit f l c b s = Inr s' \<Longrightarrow>
   results s' = [] \<or> hook_state.error s' = None"
  by (auto simp add: commit_def split: if_splits json_body.splits option.splits)

lemma try_end_inv:
  assumes "results s = [] \<or> hook_state.error s = None"
    and "\<And>s'. r = Inr s' \<Longrightarrow> results s' = [] \<or> hook_state.error s' = None"
  shows "results (try_end s r) = [] \<or> hook_state.error (try_end s r) = None"
  using assms by (cases r) (simp_all add: try_end_def catch_block_inv)

lemma performSearch_resume_inv:
  assumes "results s = [] \<or> hook_state.error s = None"
  shows "results (performSearch_resume s now p out) = []
     \<or> hook_state.error (performSearch_resume s now p out) = None"
proof -
  have k: "results (try_end (s\<lparr>rateLimitRef := rl\<rparr>)
              (case r of Inl err \<Rightarrow> Inl err
               | Inr body \<Rightarrow> commit f l (controller p) body (s\<lparr>rateLimitRef := rl\<rparr>))) = []
        \<or> hook_state.error (try_end (s\<lparr>rateLimitRef := rl\<rparr>)
              (case r of Inl err \<Rightarrow> Inl err
               | Inr body \<Rightarrow> commit f l (controller p) body (s\<lparr>rateLimitRef := rl\<rparr>))) = None"
    for f l rl r
  proof (rule try_end_inv)
    show "results (s\<lparr>rateLimitRef := rl\<rparr>) = [] \<or> hook_state.error (s\<lparr>rateLimitRef := rl\<rparr>) = None"
      using assms by simp
  next
    fix s'
    assume a: "(case r of Inl err \<Rightarrow> Inl err
                | Inr body \<Rightarrow> commit f l (controller p) body (s\<lparr>rateLimitRef := rl\<rparr>)) = Inr s'"
    then obtain body where "commit f l (controller p) body (s\<lparr>rateLimitRef := rl\<rparr>) = Inr s'"
      by (cases r) simp_all
    then show "results s' = [] \<or> hook_state.error s' = None"
      by (rule commit_inv[rotated]) (use assms in simp)
  qed
  show ?thesis
    unfolding performSearch_resume_def
    by (cases "awaiting p") (simp_all add: Let_def k split: prod.splits)
qed

lemma call_fetchEnglishAutocomplete_inv:
  assumes "hook_state.error s = None"
    and "call_fetchEnglishAutocomplete k c now t s = (s', q)"
  shows "results s' = [] \<or> hook_state.error s' = None"
  using assms
  by (auto simp add: call_fetchEnglishAutocomplete_def try_end_def catch_block_def Let_def
      split: sum.splits if_splits)

lemma begun_fields:
  "rateLimitRef (begun s) = rateLimitRef s"
  "abortControllerRef (begun s) = Some (controllers s)"
  "hook_state.error (begun s) = None"
  "translatedName (begun s) = None"
  by (simp_all add: begun_def split: option.splits)

lemma performSearch_start_inv:
  assumes "performSearch_start props s now t = (s', q)"
  shows "results s' = [] \<or> hook_state.error s' = None"
proof (cases "int (length (trim t)) < minLength props")
  case True
  with assms show ?thesis by (auto simp add: performSearch_start_def)
next
  case False
  have e: "hook_state.error (begun s) = None"
    by (simp add: begun_fields)
  have "s' = finally_block (begun s)
       \<or> (\<exists>k c. call_fetchEnglishAutocomplete k c now t (begun s) = (s', q))
       \<or> (\<exists>e. s' = try_end (begun s) (Inl e)) \<or> s' = begun s"
    using assms False
    unfolding performSearch_start_def Let_def begun_def
    by (auto split: if_splits option.splits sum.splits)
  then show ?thesis
  proof (elim disjE exE)
    assume "s' = finally_block (begun s)"
    then show ?thesis using e by simp
  next
    fix k c assume "call_fetchEnglishAutocomplete k c now t (begun s) = (s', q)"
    then show ?thesis by (rule call_fetchEnglishAutocomplete_inv[OF e])
  next
    fix err assume "s' = try_end (begun s) (Inl err)"
    then show ?thesis using catch_block_inv[of "begun s" err] e by (simp add: try_end_def)
  next
    assume "s' = begun s"
    then show ?thesis using e by simp
  qed
qed

subsection \<open>Controllers\<close>

lemma state_ok_initial: "state_ok initial_state"
  by (simp add: state_ok_def initial_state_def)

lemma state_ok_cong:
  "aborted s' = aborted s \<Longrightarrow> controllers s' = controllers s \<Longrightarrow>
   abortControllerRef s' = abortControllerRef s \<Longrightarrow> state_ok s' = state_ok s"
  by (simp add: state_ok_def split: option.splits)

lemma state_ok_finally_block [simp]: "state_ok (finally_block s) = state_ok s"
  by (rule state_ok_cong) (simp_all add: finally_block_def)

lemma state_ok_catch_block [simp]: "state_ok (catch_block e s) = state_ok s"
  by (rule state_ok_cong) (simp_all add: catch_block_def Let_def)

lemma state_ok_rateLimitRef [simp]: "state_ok (s\<lparr>rateLimitRef := rl\<rparr>) = state_ok s"
  by (rule state_ok_cong) simp_all

lemma state_ok_commit:
  assumes "state_ok s" and "commit f l c b s = Inr s'"
  shows "state_ok s'"
proof -
  have "state_ok s' = state_ok s"
    by (rule state_ok_cong)
       (use assms(2) in \<open>auto simp add: commit_def split: if_splits json_body.splits option.splits\<close>)
  with assms(1) show ?thesis by simp
qed

lemma state_ok_try_end:
  "state_ok s \<Longrightarrow> (\<And>s'. r = Inr s' \<Longrightarrow> state_ok s') \<Longrightarrow> state_ok (try_end s r)"
  by (cases r) (simp_all add: try_end_def)

lemma state_ok_performSearch_resume:
  assumes "state_ok s"
  shows "state_ok (performSearch_resume s now p outcome)"
proof -
  have k: "state_ok (try_end (s\<lparr>rateLimitRef := rl\<rparr>)
       (case r of Inl err \<Rightarrow> Inl err
        | Inr body \<Rightarrow> commit f l (controller p) body (s\<lparr>rateLimitRef := rl\<rparr>)))" for f l rl r
    by (rule state_ok_try_end)
       (use assms in \<open>auto split: sum.splits intro: state_ok_commit[rotated]\<close>)
  show ?thesis
    unfolding performSearch_resume_def
    by (cases "awaiting p") (simp_all add: Let_def k split: prod.splits)
qed

lemma state_ok_begun: "state_ok s \<Longrightarrow> state_ok (begun s)"
  by (auto simp add: state_ok_def begun_def less_Suc_eq split: option.splits)

lemma state_ok_effect_cleanup: "state_ok s \<Longrightarrow> state_ok (effect_cleanup s)"
  by (auto simp add: state_ok_def effect_cleanup_def split: option.splits)

lemma state_ok_performSearch_start:
  assumes "state_ok s"
  shows "state_ok (fst (performSearch_start props s now t))"
proof (cases "int (length (trim t)) < minLength props")
  case True
  then have "fst (performSearch_start props s now t) =
      s\<lparr>error := None, translatedName := None, results := [], loading := False, cached := False\<rparr>"
    by (simp add: performSearch_start_def)
  moreover have "state_ok (s\<lparr>error := None, translatedName := None, results := [],
      loading := False, cached := False\<rparr>) = state_ok s"
    by (rule state_ok_cong) simp_all
  ultimately show ?thesis using assms by simp
next
  case False
  have "fst (performSearch_start props s now t) \<in>
      {begun s, finally_block (begun s)} \<union> {try_end (begun s) (Inl e) |e. True}"
    using False
    unfolding performSearch_start_def Let_def begun_def call_fetchEnglishAutocomplete_def
    by (auto split: if_splits option.splits sum.splits)
  then show ?thesis
    using state_ok_begun[OF assms] by (auto simp add: try_end_def)
qed

lemma begun_not_aborted: "state_ok s \<Longrightarrow> controllers s \<notin> aborted (begun s)"
  by (auto simp add: begun_def state_ok_def split: option.splits)

subsection \<open>The paths of \<open>performSearch\<close>\<close>

lemma performSearch_start_fallback:
  assumes "selectedLang props \<noteq> ''en''" and "\<not> isLangLoading props"
    and "\<not> int (length (trim searchTerm)) < minLength props"
    and "fuseDictionary props = None \<or> idToPreferredName props = None
         \<or> idToPreferredName props = Some []
         \<or> (\<exists>search. fuseDictionary props = Some search \<and> search (trim searchTerm) 10 = [])"
  shows "performSearch_start props s now searchTerm =
           call_fetchEnglishAutocomplete FallbackResults (controllers s) now searchTerm (begun s)"
  using assms
  by (auto simp add: performSearch_start_def begun_def Let_def split: option.splits)

lemma performSearch_start_translated:
  assumes "selectedLang props \<noteq> ''en''" and "\<not> isLangLoading props"
    and "\<not> int (length (trim searchTerm)) < minLength props"
    and "fuseDictionary props = Some search" and "idToPreferredName props = Some entries"
    and "entries \<noteq> []" and "search (trim searchTerm) 10 = first # rest"
    and "\<not> (blocked (rateLimitRef s) \<and> now < until (rateLimitRef s))"
  shows "performSearch_start props s now searchTerm =
           (begun s, Some \<lparr>controller = controllers s,
              awaiting = TranslatedResults (first # rest),
              request = SearchByOracleIdsPaginatedRequest
                 (join '','' (unique_ids (map item_id (first # rest)))) 1 ''relevance''\<rparr>)"
  using assms
  by (simp add: performSearch_start_def begun_def Let_def fetchByOracleIds_request_def
      split: option.splits)

lemma commit_success:
  assumes "c \<notin> aborted s" and "success r" and "data r = DataArray items"
  shows "commit f l c (JsonValue r) s =
     Inr (s\<lparr>results := f items, cached := autocomplete_response.cached r, error := None,
            translatedName := l\<rparr>)"
  using assms by (simp add: commit_def data_array_def)

lemma processedResults_fallback_cards:
  "CardResult q \<in> set (processedResults_fallback items) \<Longrightarrow>
     originalName q = Some (printing.name q) \<and> preferredName q = None"
  by (auto simp add: processedResults_fallback_def printing.defs
      split: autocomplete_result.splits)

lemma mappedResults_eq:
  assumes "\<forall>p \<in> set (printings_of items). printing.oracle_id p \<notin> set object_prototype_keys"
  shows "mappedResults fuseResults items =
     map (\<lambda>p. CardResult
            \<lparr>printing_id = printing.printing_id p,
             oracle_id = printing.oracle_id p,
             name = (case idToPreferredMap fuseResults (printing.oracle_id p) of
                       None \<Rightarrow> printing.name p
                     | Some pref \<Rightarrow> if pref \<noteq> [] then pref else printing.name p),
             set_name = printing.set_name p,
             collector_number = printing.collector_number p,
             image_uri_small = printing.image_uri_small p,
             originalName = Some (printing.name p),
             preferredName = (case idToPreferredMap fuseResults (printing.oracle_id p) of
                       None \<Rightarrow> None
                     | Some pref \<Rightarrow> if pref \<noteq> [] then Some pref else None)\<rparr>)
         (printings_of items)"
  unfolding mappedResults_def
  by (rule map_cong[OF refl])
     (use assms in \<open>auto simp add: get_property_def js_or_str_def js_or_def truthy_def Let_def
        split: option.splits\<close>)

text \<open>A card whose id names a property of \<open>Object.prototype\<close> that no candidate supplies.\<close>

lemma mappedResults_inherited:
  assumes "printing.oracle_id p \<in> set object_prototype_keys"
    and "idToPreferredMap fuseResults (printing.oracle_id p) = None"
  shows "mappedResults fuseResults [CardItem p] = [CardResultInheritedName p]"
  using assms by (simp add: mappedResults_def get_property_def)



text \<open>
  What the guards on the local controller do achieve: a superseded resolution whose
  call is rejected by the abort, or settles with a response that parses, leaves the
  results, the error, the cache flag and the translated name as they are.
\<close>

lemma superseded_response_discarded:
  assumes "controller p \<in> aborted s"
    and "outcome = Rejected (JsError ''AbortError'' m)
         \<or> (\<exists>resp body. outcome = Resolved resp \<and> ok resp \<and> json resp = Inr body
              \<and> (case awaiting p of TranslatedResults _ \<Rightarrow> body \<noteq> JsonNull | _ \<Rightarrow> True))"
  shows "results (performSearch_resume s now p outcome) = results s
     \<and> hook_state.error (performSearch_resume s now p outcome) = hook_state.error s
     \<and> hook_state.cached (performSearch_resume s now p outcome) = hook_state.cached s
     \<and> translatedName (performSearch_resume s now p outcome) = translatedName s"
  using assms
  by (cases "awaiting p")
     (auto simp add: performSearch_resume_def fetchEnglishAutocomplete_response_def
        fetchByOracleIds_response_def try_end_def commit_def catch_block_def
        normalize_response_def split: json_body.splits option.splits)

text \<open>
  A body other than \<open>null\<close> that has neither of the two shapes is answered with the
  failure object.
\<close>

lemma unrecognized_shape_returns_failure:
  assumes "ok resp" and "json resp = Inr (JsonValue r)"
    and "\<not> (success r \<and> (\<exists>cards. data r = DataObject (Some cards)))"
    and "\<not> (success r \<and> (\<exists>items. data r = DataArray items))"
  shows "fst (fetchByOracleIds_response rl now (Resolved resp)) =
    Inr (JsonValue \<lparr>success = False, cached = False, data = DataArray [],
                    error = Some ''Formato risposta API non riconosciuto''\<rparr>)"
  using assms
  by (auto simp add: fetchByOracleIds_response_def normalize_response_def data_truthy_def
      data_data_array_def data_array_def split: option.splits api_data.splits)




section \<open>Supersession\<close>




section \<open>Results and error after a resolution\<close>

text \<open>
  A successful English search that finds nothing ends with an empty result list and no
  error: neither of the two alternatives of C2 holds.
\<close>

theorem empty_success_counterexample:
  "\<not> ((results (fst (performSearch english_props initial_state 0 100
                      (Resolved (ok_response (DataArray []))) ''ab'')) \<noteq> []
        \<and> hook_state.error (fst (performSearch english_props initial_state 0 100
                      (Resolved (ok_response (DataArray []))) ''ab'')) = None)
     \<or> (results (fst (performSearch english_props initial_state 0 100
                      (Resolved (ok_response (DataArray []))) ''ab'')) = []
        \<and> hook_state.error (fst (performSearch english_props initial_state 0 100
                      (Resolved (ok_response (DataArray []))) ''ab'')) \<noteq> None))"
  by (simp add: run_defs example_defs)

text \<open>
  C2 (amended). After every completed, non-superseded resolution the result list is empty
  or the error is null: a non-empty list comes with no error, an error comes with an empty
  list, and an empty list with no error is possible.
\<close>

theorem completed_resolution_results_or_error:
  "results (fst (performSearch props s now now' outcome searchTerm)) = []
   \<or> hook_state.error (fst (performSearch props s now now' outcome searchTerm)) = None"
proof (cases "performSearch_start props s now searchTerm")
  case (Pair s1 q)
  show ?thesis
  proof (cases q)
    case None
    with Pair performSearch_start_inv[OF Pair] show ?thesis
      by (simp add: performSearch_def)
  next
    case (Some p)
    with Pair performSearch_resume_inv[OF performSearch_start_inv[OF Pair]] show ?thesis
      by (simp add: performSearch_def)
  qed
qed

theorem completed_resolution_results_or_error_witness:
  "results (fst (performSearch english_props initial_state 0 100
                   (Resolved server_error_response) ''ab'')) = []
   \<and> hook_state.error (fst (performSearch english_props initial_state 0 100
                   (Resolved server_error_response) ''ab''))
       = Some ''Errore del server: HTTP error! status: 500''"
  using completed_resolution_results_or_error
          [of english_props initial_state 0 100 "Resolved server_error_response" "''ab''"]
  by (simp add: run_defs example_defs)


section \<open>The rate limit\<close>

text \<open>
  A response with status 500, handled when the cooldown of an earlier throttling has
  run out, leaves the rate-limit state as it is: it is not reset, against C3.
\<close>

theorem server_error_keeps_rate_limit_counterexample:
  "snd (fetchEnglishAutocomplete_response \<lparr>blocked = True, until = 1000\<rparr> 2000
          (Resolved server_error_response)) \<noteq> \<lparr>blocked = False, until = 0\<rparr>"
  by (simp add: fetchEnglishAutocomplete_response_def ok_def server_error_response_def)

text \<open>
  C3 (amended). Both client operations reset the rate-limit state to
  \<open>{blocked: false, until: 0}\<close> after every response with a 2xx status, set the cooldown
  after a response with status 429, and leave the state unchanged after any other
  response.
\<close>

theorem rate_limit_after_response:
  "snd (fetchEnglishAutocomplete_response rl now (Resolved r)) =
     (if ok r then \<lparr>blocked = False, until = 0\<rparr>
      else if status r = 429 then \<lparr>blocked = True, until = now + 30000\<rparr> else rl)
   \<and> snd (fetchByOracleIds_response rl now (Resolved r)) =
     (if ok r then \<lparr>blocked = False, until = 0\<rparr>
      else if status r = 429 then \<lparr>blocked = True, until = now + 30000\<rparr> else rl)"
  by (simp add: fetchEnglishAutocomplete_response_def fetchByOracleIds_response_def
      split: sum.splits)

theorem rate_limit_after_response_witness:
  "snd (fetchEnglishAutocomplete_response \<lparr>blocked = True, until = 1000\<rparr> 2000
          (Resolved (ok_response (DataArray [])))) = \<lparr>blocked = False, until = 0\<rparr>
   \<and> snd (fetchByOracleIds_response \<lparr>blocked = True, until = 1000\<rparr> 2000
          (Resolved (ok_response (DataArray [])))) = \<lparr>blocked = False, until = 0\<rparr>"
  using rate_limit_after_response
          [of "\<lparr>blocked = True, until = 1000\<rparr>" 2000 "ok_response (DataArray [])"]
  by (simp add: ok_def ok_response_def)

text \<open>
  C4. After a response with status 429 handled at time \<open>t\<close>, whatever its headers say,
  the cooldown ends at \<open>t + 30000\<close>. A call of either client operation before that time
  throws the rate-limit error with the remaining seconds (between 1 and 30 when the
  clock has not gone back) and makes no network request; a call at or after that time
  makes its request and handles the response.
\<close>

theorem throttled_cooldown_30_seconds:
  assumes "status r = 429"
  shows "snd (fetchEnglishAutocomplete_response rl t (Resolved r))
           = \<lparr>blocked = True, until = t + 30000\<rparr>
     \<and> snd (fetchByOracleIds_response rl t (Resolved r))
           = \<lparr>blocked = True, until = t + 30000\<rparr>
     \<and> fetchEnglishAutocomplete \<lparr>blocked = True, until = t + 30000\<rparr> now now' outcome searchTerm =
         (if now < t + 30000 then
            (Inl (new_Error (''Troppe richieste. Attendi ''
               @ string_of_int (math_ceil_div (t + 30000 - now) 1000) @ '' secondi.'')),
             \<lparr>blocked = True, until = t + 30000\<rparr>, None)
          else
            (fst (fetchEnglishAutocomplete_response
                    \<lparr>blocked = True, until = t + 30000\<rparr> now' outcome),
             snd (fetchEnglishAutocomplete_response
                    \<lparr>blocked = True, until = t + 30000\<rparr> now' outcome),
             Some (AutocompleteRequest (trim searchTerm))))
     \<and> fetchByOracleIds \<lparr>blocked = True, until = t + 30000\<rparr> now now' outcome oracleIds =
         (if now < t + 30000 then
            (Inl (new_Error (''Troppe richieste. Attendi ''
               @ string_of_int (math_ceil_div (t + 30000 - now) 1000) @ '' secondi.'')),
             \<lparr>blocked = True, until = t + 30000\<rparr>, None)
          else
            (fst (fetchByOracleIds_response
                    \<lparr>blocked = True, until = t + 30000\<rparr> now' outcome),
             snd (fetchByOracleIds_response
                    \<lparr>blocked = True, until = t + 30000\<rparr> now' outcome),
             Some (SearchByOracleIdsPaginatedRequest (join '','' oracleIds) 1 ''relevance'')))
     \<and> (if t \<le> now \<and> now < t + 30000
         then 1 \<le> math_ceil_div (t + 30000 - now) 1000
              \<and> math_ceil_div (t + 30000 - now) 1000 \<le> 30
         else True)"
proof -
  have a: "snd (fetchEnglishAutocomplete_response rl t (Resolved r))
           = \<lparr>blocked = True, until = t + 30000\<rparr>"
    using assms by (simp add: fetchEnglishAutocomplete_response_def not_ok_429)
  have b: "snd (fetchByOracleIds_response rl t (Resolved r))
           = \<lparr>blocked = True, until = t + 30000\<rparr>"
    using assms by (simp add: fetchByOracleIds_response_def not_ok_429)
  have c: "fetchEnglishAutocomplete \<lparr>blocked = True, until = t + 30000\<rparr> now now' outcome searchTerm =
         (if now < t + 30000 then
            (Inl (new_Error (''Troppe richieste. Attendi ''
               @ string_of_int (math_ceil_div (t + 30000 - now) 1000) @ '' secondi.'')),
             \<lparr>blocked = True, until = t + 30000\<rparr>, None)
          else
            (fst (fetchEnglishAutocomplete_response
                    \<lparr>blocked = True, until = t + 30000\<rparr> now' outcome),
             snd (fetchEnglishAutocomplete_response
                    \<lparr>blocked = True, until = t + 30000\<rparr> now' outcome),
             Some (AutocompleteRequest (trim searchTerm))))"
    by (simp add: fetchEnglishAutocomplete_def fetchEnglishAutocomplete_request_def
        split: prod.splits)
  have d: "fetchByOracleIds \<lparr>blocked = True, until = t + 30000\<rparr> now now' outcome oracleIds =
         (if now < t + 30000 then
            (Inl (new_Error (''Troppe richieste. Attendi ''
               @ string_of_int (math_ceil_div (t + 30000 - now) 1000) @ '' secondi.'')),
             \<lparr>blocked = True, until = t + 30000\<rparr>, None)
          else
            (fst (fetchByOracleIds_response
                    \<lparr>blocked = True, until = t + 30000\<rparr> now' outcome),
             snd (fetchByOracleIds_response
                    \<lparr>blocked = True, until = t + 30000\<rparr> now' outcome),
             Some (SearchByOracleIdsPaginatedRequest (join '','' oracleIds) 1 ''relevance'')))"
    by (simp add: fetchByOracleIds_def fetchByOracleIds_request_def split: prod.splits)
  have e: "(if t \<le> now \<and> now < t + 30000
         then 1 \<le> math_ceil_div (t + 30000 - now) 1000
              \<and> math_ceil_div (t + 30000 - now) 1000 \<le> 30
         else True)"
    unfolding math_ceil_div_def by (simp; linarith)
  from a b c d e show ?thesis by blast
qed

theorem throttled_cooldown_30_seconds_witness:
  "status throttled_response = 429
   \<and> snd (fetchEnglishAutocomplete_response \<lparr>blocked = False, until = 0\<rparr> 1000
            (Resolved throttled_response)) = \<lparr>blocked = True, until = 31000\<rparr>
   \<and> fetchEnglishAutocomplete \<lparr>blocked = True, until = 31000\<rparr> 5500 6000
        (Resolved (ok_response (DataArray []))) ''ab''
       = (Inl (new_Error ''Troppe richieste. Attendi 26 secondi.''),
          \<lparr>blocked = True, until = 31000\<rparr>, None)
   \<and> fetchByOracleIds \<lparr>blocked = True, until = 31000\<rparr> 31000 31500
        (Resolved (ok_response (DataArray []))) [''abc'', ''def'']
       = (Inr (JsonValue \<lparr>success = True, cached = False, data = DataArray [], error = None\<rparr>),
          \<lparr>blocked = False, until = 0\<rparr>,
          Some (SearchByOracleIdsPaginatedRequest ''abc,def'' 1 ''relevance''))"
proof -
  have h: "status throttled_response = 429"
    by (simp add: throttled_response_def)
  show ?thesis
    using h
      throttled_cooldown_30_seconds [OF h, of "\<lparr>blocked = False, until = 0\<rparr>" 1000 5500 6000
        "Resolved (ok_response (DataArray []))" "''ab''" "[]"]
      throttled_cooldown_30_seconds [OF h, of "\<lparr>blocked = False, until = 0\<rparr>" 1000 31000 31500
        "Resolved (ok_response (DataArray []))" "''ab''" "[''abc'', ''def'']"]
    by (simp add: run_defs example_defs)
qed

text \<open>
  C10. A call of either client operation that is rejected because the cooldown is
  active (\<open>blocked\<close> and \<open>now < until\<close>) makes no request and leaves the rate-limit state
  exactly as it was.
\<close>

theorem cooldown_rejection_keeps_state:
  assumes "blocked rl" and "now < until rl"
  shows "fetchEnglishAutocomplete rl now now' outcome searchTerm =
           (Inl (new_Error (''Troppe richieste. Attendi ''
                   @ string_of_int (math_ceil_div (until rl - now) 1000) @ '' secondi.'')),
            rl, None)
       \<and> fetchByOracleIds rl now now' outcome oracleIds =
           (Inl (new_Error (''Troppe richieste. Attendi ''
                   @ string_of_int (math_ceil_div (until rl - now) 1000) @ '' secondi.'')),
            rl, None)"
  using assms
  by (simp add: fetchEnglishAutocomplete_def fetchEnglishAutocomplete_request_def
        fetchByOracleIds_def fetchByOracleIds_request_def)

theorem cooldown_rejection_keeps_state_witness:
  "blocked \<lparr>blocked = True, until = 31000\<rparr>
   \<and> (5500::int) < until \<lparr>blocked = True, until = 31000\<rparr>
   \<and> fetchEnglishAutocomplete \<lparr>blocked = True, until = 31000\<rparr> 5500 6000
        (Resolved throttled_response) ''ab''
      = (Inl (new_Error ''Troppe richieste. Attendi 26 secondi.''),
         \<lparr>blocked = True, until = 31000\<rparr>, None)
   \<and> fetchByOracleIds \<lparr>blocked = True, until = 31000\<rparr> 5500 6000
        (Resolved throttled_response) [''abc'']
      = (Inl (new_Error ''Troppe richieste. Attendi 26 secondi.''),
         \<lparr>blocked = True, until = 31000\<rparr>, None)"
proof -
  have h1: "blocked \<lparr>blocked = True, until = 31000\<rparr>"
    by simp
  have h2: "(5500::int) < until \<lparr>blocked = True, until = 31000\<rparr>"
    by simp
  show ?thesis
    using h1 h2
      cooldown_rejection_keeps_state [OF h1 h2, of 6000 "Resolved throttled_response"
        "''ab''" "[''abc'']"]
    by (simp add: math_ceil_div_def string_of_int_def digit_def)
qed


section \<open>The paths of a resolution\<close>

text \<open>
  C5. For every term whose trimmed length is below \<open>minLength\<close> the resolution ends at
  once: the result list is empty, the error and the translated name are cleared (and
  the loading and cache flags are off), and no network request is made.
\<close>

theorem short_term_no_network_call:
  assumes "int (length (trim searchTerm)) < minLength props"
  shows "performSearch props s now now' outcome searchTerm =
           (s\<lparr>error := None, translatedName := None, results := [], loading := False,
              cached := False\<rparr>, None)"
  using assms by (simp add: performSearch_def performSearch_start_def)

theorem short_term_no_network_call_witness:
  "int (length (trim ''  a '')) < minLength english_props
   \<and> performSearch english_props state_B_settled 700 800
        (Resolved (ok_response (DataArray [CardItem island]))) ''  a ''
      = (state_B_settled\<lparr>error := None, translatedName := None, results := [],
           loading := False, cached := False\<rparr>, None)"
proof -
  have h: "int (length (trim ''  a '')) < minLength english_props"
    by (simp add: trim_def is_white_space_def english_props_def)
  show ?thesis
    using h short_term_no_network_call [OF h, of state_B_settled 700 800
                "Resolved (ok_response (DataArray [CardItem island]))"]
    by simp
qed

text \<open>
  C6. In a language other than English, when the dictionary is absent or empty or finds
  no candidate for the term, the resolution makes the English term search; of its
  response every set is kept as it is and every card is stored with \<open>originalName\<close> equal
  to its name, without \<open>preferredName\<close>; the translated name is null. (The resolution
  starts in a state the hook can be in, outside a cooldown, runs to its end, and the
  search answers with a list of results.)
\<close>

theorem fallback_tags_original_name:
  assumes "state_ok s"
    and "selectedLang props \<noteq> ''en''" and "\<not> isLangLoading props"
    and "\<not> int (length (trim searchTerm)) < minLength props"
    and "fuseDictionary props = None \<or> idToPreferredName props = None
         \<or> idToPreferredName props = Some []
         \<or> (\<exists>search. fuseDictionary props = Some search \<and> search (trim searchTerm) 10 = [])"
    and "\<not> (blocked (rateLimitRef s) \<and> now < until (rateLimitRef s))"
    and "ok resp" and "json resp = Inr (JsonValue r)" and "success r"
    and "data r = DataArray items"
  shows "snd (performSearch props s now now' (Resolved resp) searchTerm)
           = Some (AutocompleteRequest (trim searchTerm))
     \<and> results (fst (performSearch props s now now' (Resolved resp) searchTerm))
           = map (\<lambda>result. case result of
                    SetItem st \<Rightarrow> SetResult st
                  | CardItem p \<Rightarrow> CardResult (printing.extend p
                       \<lparr>originalName = Some (printing.name p), preferredName = None\<rparr>)) items
     \<and> (\<forall>q. CardResult q
              \<in> set (results (fst (performSearch props s now now' (Resolved resp) searchTerm)))
            \<longrightarrow> originalName q = Some (printing.name q) \<and> preferredName q = None)
     \<and> translatedName (fst (performSearch props s now now' (Resolved resp) searchTerm)) = None
     \<and> hook_state.error (fst (performSearch props s now now' (Resolved resp) searchTerm)) = None"
proof -
  have st: "performSearch_start props s now searchTerm =
      (begun s, Some \<lparr>controller = controllers s, awaiting = FallbackResults,
                       request = AutocompleteRequest (trim searchTerm)\<rparr>)"
    using assms(6)
    by (simp add: performSearch_start_fallback[OF assms(2-5)] call_fetchEnglishAutocomplete_def
        fetchEnglishAutocomplete_request_def begun_fields)
  have fin: "fst (performSearch props s now now' (Resolved resp) searchTerm) =
      finally_block ((begun s)\<lparr>rateLimitRef := \<lparr>blocked = False, until = 0\<rparr>,
         results := processedResults_fallback items,
         cached := autocomplete_response.cached r, error := None, translatedName := None\<rparr>)"
    using assms(7-10) begun_not_aborted[OF assms(1)]
    by (simp add: performSearch_def st performSearch_resume_def
        fetchEnglishAutocomplete_response_def try_end_def commit_success)
  have rq: "snd (performSearch props s now now' (Resolved resp) searchTerm)
           = Some (AutocompleteRequest (trim searchTerm))"
    by (simp add: performSearch_def st)
  show ?thesis
    unfolding fin rq
    using processedResults_fallback_cards by (simp add: processedResults_fallback_def)
qed

theorem fallback_tags_original_name_witness:
  "snd (performSearch italian_props initial_state 0 100
          (Resolved (ok_response (DataArray [CardItem island, SetItem alpha]))) ''zz'')
     = Some (AutocompleteRequest ''zz'')
   \<and> results (fst (performSearch italian_props initial_state 0 100
          (Resolved (ok_response (DataArray [CardItem island, SetItem alpha]))) ''zz''))
     = [CardResult \<lparr>printing_id = ''p2'', oracle_id = ''def'', name = ''Island'',
           set_name = ''Alpha'', collector_number = ''2'', image_uri_small = None,
           originalName = Some ''Island'', preferredName = None\<rparr>,
        SetResult alpha]
   \<and> translatedName (fst (performSearch italian_props initial_state 0 100
          (Resolved (ok_response (DataArray [CardItem island, SetItem alpha]))) ''zz'')) = None"
proof -
  have h2: "selectedLang italian_props \<noteq> ''en''" and h3: "\<not> isLangLoading italian_props"
    and h4: "\<not> int (length (trim ''zz'')) < minLength italian_props"
    by (simp_all add: italian_props_def trim_def is_white_space_def)
  have h5: "fuseDictionary italian_props = None \<or> idToPreferredName italian_props = None
         \<or> idToPreferredName italian_props = Some []
         \<or> (\<exists>search. fuseDictionary italian_props = Some search
                \<and> search (trim ''zz'') 10 = [])"
    by (simp add: italian_props_def dictionary_def trim_def is_white_space_def)
  have h6: "\<not> (blocked (rateLimitRef initial_state) \<and> 0 < until (rateLimitRef initial_state))"
    by (simp add: initial_state_def)
  have h7: "ok (ok_response (DataArray [CardItem island, SetItem alpha]))"
    and h8: "json (ok_response (DataArray [CardItem island, SetItem alpha]))
       = Inr (JsonValue \<lparr>success = True, cached = False,
                data = DataArray [CardItem island, SetItem alpha], error = None\<rparr>)"
    by (simp_all add: ok_response_def ok_def)
  have h9: "success \<lparr>success = True, cached = False,
                data = DataArray [CardItem island, SetItem alpha], error = None\<rparr>"
    and h10: "data \<lparr>success = True, cached = False,
                data = DataArray [CardItem island, SetItem alpha], error = None\<rparr>
              = DataArray [CardItem island, SetItem alpha]"
    by simp_all
  show ?thesis
    using fallback_tags_original_name [OF state_ok_initial h2 h3 h4 h5 h6 h7 h8 h9 h10, of 100]
    by (simp add: trim_def is_white_space_def island_def printing.defs)
qed

text \<open>
  A candidate whose preferred name is the empty string: the card's id is in the map, yet
  the card keeps its English name and carries no \<open>preferredName\<close>, and the translated
  name is null instead of the first candidate's preferred name. C7 fails here.
\<close>

theorem empty_preferred_name_counterexample:
  "idToPreferredMap (dictionary ''isola'' 10) (printing.oracle_id island) = Some ''''
   \<and> results (fst (performSearch italian_props initial_state 0 100
        (Resolved (ok_response (DataArray [CardItem island]))) ''isola''))
      = [CardResult \<lparr>printing_id = ''p2'', oracle_id = ''def'', name = ''Island'',
           set_name = ''Alpha'', collector_number = ''2'', image_uri_small = None,
           originalName = Some ''Island'', preferredName = None\<rparr>]
   \<and> translatedName (fst (performSearch italian_props initial_state 0 100
        (Resolved (ok_response (DataArray [CardItem island]))) ''isola''))
      \<noteq> Some (item_preferred (hd (dictionary ''isola'' 10)))"
  by (simp add: run_defs example_defs)

text \<open>
  C7 (amended). In a language other than English with at least one dictionary candidate,
  the resolution fetches the distinct candidate ids in one batch. Every card of the
  response is stored with its name replaced by the preferred name that the id-to-preferred
  map holds for its id when that name is not empty, and with its own name otherwise (then
  without \<open>preferredName\<close>); \<open>originalName\<close> always holds the card's own name. The
  translated name is the first candidate's preferred name when that is not empty, and
  null otherwise. (The resolution starts in a state the hook can be in, outside a cooldown,
  runs to its end, and the batch fetch returns a list of results. The ids of the returned
  cards are not names of properties of \<open>Object.prototype\<close>, which the lookup in the plain
  object would find: \<open>mappedResults_inherited\<close>.)
\<close>

theorem translated_results_mapping:
  assumes "state_ok s"
    and "selectedLang props \<noteq> ''en''" and "\<not> isLangLoading props"
    and "\<not> int (length (trim searchTerm)) < minLength props"
    and "fuseDictionary props = Some search" and "idToPreferredName props = Some entries"
    and "entries \<noteq> []" and "search (trim searchTerm) 10 = first # rest"
    and "\<not> (blocked (rateLimitRef s) \<and> now < until (rateLimitRef s))"
    and "ok resp" and "json resp = Inr body"
    and "normalize_response body = Inr (JsonValue r)"
    and "success r" and "data r = DataArray items"
    and "\<forall>p \<in> set (printings_of items). printing.oracle_id p \<notin> set object_prototype_keys"
  shows "snd (performSearch props s now now' (Resolved resp) searchTerm)
           = Some (SearchByOracleIdsPaginatedRequest
                 (join '','' (unique_ids (map item_id (first # rest)))) 1 ''relevance'')
     \<and> results (fst (performSearch props s now now' (Resolved resp) searchTerm))
           = map (\<lambda>p. CardResult
            \<lparr>printing_id = printing.printing_id p,
             oracle_id = printing.oracle_id p,
             name = (case idToPreferredMap (first # rest) (printing.oracle_id p) of
                       None \<Rightarrow> printing.name p
                     | Some pref \<Rightarrow> if pref \<noteq> [] then pref else printing.name p),
             set_name = printing.set_name p,
             collector_number = printing.collector_number p,
             image_uri_small = printing.image_uri_small p,
             originalName = Some (printing.name p),
             preferredName = (case idToPreferredMap (first # rest) (printing.oracle_id p) of
                       None \<Rightarrow> None
                     | Some pref \<Rightarrow> if pref \<noteq> [] then Some pref else None)\<rparr>)
         (printings_of items)
     \<and> translatedName (fst (performSearch props s now now' (Resolved resp) searchTerm))
           = (if item_preferred first \<noteq> [] then Some (item_preferred first) else None)
     \<and> hook_state.error (fst (performSearch props s now now' (Resolved resp) searchTerm)) = None"
proof -
  note st = performSearch_start_translated[OF assms(2-9)]
  have fin: "fst (performSearch props s now now' (Resolved resp) searchTerm) =
      finally_block ((begun s)\<lparr>rateLimitRef := \<lparr>blocked = False, until = 0\<rparr>,
         results := mappedResults (first # rest) items,
         cached := autocomplete_response.cached r, error := None,
         translatedName := first_preferred (first # rest)\<rparr>)"
    using assms(10-14) begun_not_aborted[OF assms(1)]
    by (simp add: performSearch_def st performSearch_resume_def
        fetchByOracleIds_response_def try_end_def commit_success)
  have rq: "snd (performSearch props s now now' (Resolved resp) searchTerm)
           = Some (SearchByOracleIdsPaginatedRequest
                 (join '','' (unique_ids (map item_id (first # rest)))) 1 ''relevance'')"
    by (simp add: performSearch_def st)
  show ?thesis
    unfolding fin rq
    by (simp add: mappedResults_eq[OF assms(15)] first_preferred_def js_or_def truthy_def)
qed

theorem translated_results_mapping_witness:
  "snd (performSearch italian_props initial_state 0 100
          (Resolved (ok_response (DataObject (Some [underground_sea_card])))) ''sottomare'')
     = Some (SearchByOracleIdsPaginatedRequest ''abc'' 1 ''relevance'')
   \<and> results (fst (performSearch italian_props initial_state 0 100
          (Resolved (ok_response (DataObject (Some [underground_sea_card])))) ''sottomare''))
     = [CardResult \<lparr>printing_id = ''p1'', oracle_id = ''abc'', name = ''mare sotterraneo'',
           set_name = ''Alpha'', collector_number = '''', image_uri_small = Some ''front.jpg'',
           originalName = Some ''Underground Sea'',
           preferredName = Some ''mare sotterraneo''\<rparr>]
   \<and> translatedName (fst (performSearch italian_props initial_state 0 100
          (Resolved (ok_response (DataObject (Some [underground_sea_card])))) ''sottomare''))
     = Some ''mare sotterraneo''"
proof -
  have h2: "selectedLang italian_props \<noteq> ''en''" and h3: "\<not> isLangLoading italian_props"
    and h4: "\<not> int (length (trim ''sottomare'')) < minLength italian_props"
    and h5: "fuseDictionary italian_props = Some dictionary"
    and h6: "idToPreferredName italian_props
               = Some [(''abc'', ''mare sotterraneo''), (''def'', '''')]"
    and h7: "[(''abc'', ''mare sotterraneo''), (''def'', '''')] \<noteq> []"
    by (simp_all add: italian_props_def trim_def is_white_space_def)
  have h8: "dictionary (trim ''sottomare'') 10 =
      \<lparr>item_id = ''abc'', item_name = ''Underground Sea'',
        item_preferred = ''mare sotterraneo''\<rparr> # []"
    by (simp add: dictionary_def trim_def is_white_space_def)
  have h9: "\<not> (blocked (rateLimitRef initial_state) \<and> 0 < until (rateLimitRef initial_state))"
    by (simp add: initial_state_def)
  have h10: "ok (ok_response (DataObject (Some [underground_sea_card])))"
    and h11: "json (ok_response (DataObject (Some [underground_sea_card])))
       = Inr (JsonValue \<lparr>success = True, cached = False,
                data = DataObject (Some [underground_sea_card]), error = None\<rparr>)"
    by (simp_all add: ok_response_def ok_def)
  have h12: "normalize_response (JsonValue \<lparr>success = True, cached = False,
                data = DataObject (Some [underground_sea_card]), error = None\<rparr>)
       = Inr (JsonValue \<lparr>success = True, cached = False,
                data = DataArray [CardItem (card_to_printing underground_sea_card)],
                error = None\<rparr>)"
    by (simp add: normalize_response_def data_truthy_def data_data_array_def card_valid_def
        truthy_def underground_sea_card_def)
  have h13: "success \<lparr>success = True, cached = False,
                data = DataArray [CardItem (card_to_printing underground_sea_card)],
                error = None\<rparr>"
    and h14: "data \<lparr>success = True, cached = False,
                data = DataArray [CardItem (card_to_printing underground_sea_card)],
                error = None\<rparr>
              = DataArray [CardItem (card_to_printing underground_sea_card)]"
    by simp_all
  have h15: "\<forall>p \<in> set (printings_of [CardItem (card_to_printing underground_sea_card)]).
               printing.oracle_id p \<notin> set object_prototype_keys"
    by (simp add: card_to_printing_def js_or_str_def underground_sea_card_def
        object_prototype_keys_def)
  show ?thesis
    using translated_results_mapping
            [OF state_ok_initial h2 h3 h4 h5 h6 h7 h8 h9 h10 h11 h12 h13 h14 h15, of 100]
    by (simp add: idToPreferredMap_def unique_ids_def card_to_printing_def js_or_def
        js_or_str_def truthy_def underground_sea_card_def)
qed


section \<open>The response of the batch endpoint\<close>

text \<open>
  C8. A response that has neither of the two shapes must be answered with the failure
  object, not with an exception. The JSON body \<open>null\<close> has neither shape, and reading
  \<open>responseData.success\<close> on it throws a \<open>TypeError\<close>; every other such body is answered
  with the failure object (\<open>unrecognized_shape_returns_failure\<close>).
\<close>

theorem null_body_throws:
  "fst (fetchByOracleIds_response \<lparr>blocked = False, until = 0\<rparr> 1000 (Resolved null_response))
     = Inl (JsError ''TypeError'' ''Cannot read properties of null'')"
  by (simp add: fetchByOracleIds_response_def normalize_response_def null_response_def ok_def)

text \<open>
  C9. A successful response of the wrapped shape is unwrapped: the cards that hold both a
  non-empty \<open>oracle_id\<close> and a non-empty \<open>printing_id\<close> are converted, in order, and the
  others (a card without \<open>oracle_id\<close> among them) are dropped. A converted card keeps its
  ids and its name, and gets as thumbnail the first non-empty one of \<open>image_uri_small\<close>,
  \<open>front_image_url\<close> and \<open>image_uri_normal\<close>, or none.
\<close>

theorem wrapped_envelope_normalized:
  assumes "ok resp" and "json resp = Inr (JsonValue r)" and "success r"
    and "data r = DataObject (Some cards)"
  shows "fst (fetchByOracleIds_response rl now (Resolved resp)) =
           Inr (JsonValue \<lparr>success = True, cached = autocomplete_response.cached r,
                  data = DataArray (map (\<lambda>c. CardItem (card_to_printing c))
                    (filter (\<lambda>c. card.oracle_id c \<notin> {None, Some ''''}
                                \<and> card.printing_id c \<notin> {None, Some ''''}) cards)),
                  error = None\<rparr>)
     \<and> (\<forall>c. printing.image_uri_small (card_to_printing c) =
           (if card.image_uri_small c \<notin> {None, Some ''''} then card.image_uri_small c
            else if card.front_image_url c \<notin> {None, Some ''''} then card.front_image_url c
            else if card.image_uri_normal c \<notin> {None, Some ''''} then card.image_uri_normal c
            else None))
     \<and> (\<forall>c. card.oracle_id c \<notin> {None, Some ''''} \<and> card.printing_id c \<notin> {None, Some ''''}
           \<longrightarrow> Some (printing.oracle_id (card_to_printing c)) = card.oracle_id c
               \<and> Some (printing.printing_id (card_to_printing c)) = card.printing_id c
               \<and> printing.name (card_to_printing c) = card.name c)"
proof -
  have f: "filter card_valid cards =
      filter (\<lambda>c. card.oracle_id c \<notin> {None, Some ''''}
                  \<and> card.printing_id c \<notin> {None, Some ''''}) cards"
    by (rule filter_cong) (auto simp add: card_valid_def truthy_def split: option.splits)
  have a: "fst (fetchByOracleIds_response rl now (Resolved resp)) =
           Inr (JsonValue \<lparr>success = True, cached = autocomplete_response.cached r,
                  data = DataArray (map (\<lambda>c. CardItem (card_to_printing c))
                    (filter (\<lambda>c. card.oracle_id c \<notin> {None, Some ''''}
                                \<and> card.printing_id c \<notin> {None, Some ''''}) cards)),
                  error = None\<rparr>)"
    using assms
    by (simp add: fetchByOracleIds_response_def normalize_response_def data_truthy_def
        data_data_array_def f comp_def)
  have b: "printing.image_uri_small (card_to_printing c) =
           (if card.image_uri_small c \<notin> {None, Some ''''} then card.image_uri_small c
            else if card.front_image_url c \<notin> {None, Some ''''} then card.front_image_url c
            else if card.image_uri_normal c \<notin> {None, Some ''''} then card.image_uri_normal c
            else None)" for c
    by (simp add: card_to_printing_def js_or_def truthy_def split: option.splits)
  have c: "card.oracle_id c \<notin> {None, Some ''''} \<and> card.printing_id c \<notin> {None, Some ''''}
           \<longrightarrow> Some (printing.oracle_id (card_to_printing c)) = card.oracle_id c
               \<and> Some (printing.printing_id (card_to_printing c)) = card.printing_id c
               \<and> printing.name (card_to_printing c) = card.name c" for c
    by (auto simp add: card_to_printing_def js_or_str_def)
  from a b c show ?thesis by blast
qed

theorem wrapped_envelope_normalized_witness:
  "fst (fetchByOracleIds_response \<lparr>blocked = False, until = 0\<rparr> 1000
         (Resolved (ok_response
            (DataObject (Some [card_without_oracle_id, underground_sea_card]))))) =
     Inr (JsonValue \<lparr>success = True, cached = False,
            data = DataArray [CardItem \<lparr>printing_id = ''p1'', oracle_id = ''abc'',
                      name = ''Underground Sea'', set_name = ''Alpha'',
                      collector_number = '''', image_uri_small = Some ''front.jpg''\<rparr>],
            error = None\<rparr>)"
proof -
  have h1: "ok (ok_response (DataObject (Some [card_without_oracle_id, underground_sea_card])))"
    and h2: "json (ok_response (DataObject (Some [card_without_oracle_id, underground_sea_card])))
       = Inr (JsonValue \<lparr>success = True, cached = False,
           data = DataObject (Some [card_without_oracle_id, underground_sea_card]),
           error = None\<rparr>)"
    by (simp_all add: ok_response_def ok_def)
  have h3: "success \<lparr>success = True, cached = False,
           data = DataObject (Some [card_without_oracle_id, underground_sea_card]),
           error = None\<rparr>"
    and h4: "data \<lparr>success = True, cached = False,
           data = DataObject (Some [card_without_oracle_id, underground_sea_card]),
           error = None\<rparr> = DataObject (Some [card_without_oracle_id, underground_sea_card])"
    by simp_all
  show ?thesis
    using wrapped_envelope_normalized
            [OF h1 h2 h3 h4, of "\<lparr>blocked = False, until = 0\<rparr>" 1000]
    by (simp add: card_to_printing_def js_or_def js_or_str_def truthy_def
        underground_sea_card_def card_without_oracle_id_def)
qed

end
